theory Spec2Isabelle
  imports Main
begin

section \<open>Values, state, patches and props\<close>

text \<open>
  Items are opaque JavaScript values compared by \<^verbatim>\<open>===\<close>: numbers and strings by
  value, objects by reference (a reference is a natural number here). \<^verbatim>\<open>null\<close> and
  \<^verbatim>\<open>undefined\<close> items are \<open>None\<close> of \<open>jsval option\<close>; the code tests them together
  (\<^verbatim>\<open>item == null\<close>), and a patch that sets \<^verbatim>\<open>undefined\<close> where the state holds
  \<^verbatim>\<open>null\<close> is outside the model. Numbers are integers of magnitude below \<open>10^21\<close>,
  which \<^verbatim>\<open>String\<close> writes as their digits.
\<close>

datatype jsval = JNum int | JStr string | JObj nat

text \<open>The members of \<^verbatim>\<open>stateChangeTypes\<close> that \<^verbatim>\<open>downshift.js\<close> names.\<close>

datatype stateChangeType =
    unknown | mouseUp | itemMouseEnter | keyDownArrowUp | keyDownArrowDown
  | keyDownEscape | keyDownEnter | keyDownHome | keyDownEnd | clickItem
  | blurInput | changeInput | keyDownSpaceButton | clickButton | blurButton
  | controlledPropUpdatedSelectedItem | touchEnd

text \<open>
  \<^verbatim>\<open>this.state\<close>: the four fields. \<open>highlightedIndex = None\<close> is \<^verbatim>\<open>null\<close>, the
  default of \<^verbatim>\<open>defaultHighlightedIndex\<close>; the navigation helpers return the number
  \<open>- 1\<close> for "no item".
\<close>

record dstate =
  highlightedIndex :: "int option"
  inputValue :: string
  isOpen :: bool
  selectedItem :: "jsval option"

text \<open>
  A partial state object (\<^verbatim>\<open>stateToSet\<close>, \<^verbatim>\<open>otherStateToSet\<close>, the argument of
  \<^verbatim>\<open>onStateChange\<close>): each key is present (\<open>Some\<close>) or absent (\<open>None\<close>).
\<close>

record patch =
  p_highlightedIndex :: "int option option"
  p_inputValue :: "string option"
  p_isOpen :: "bool option"
  p_selectedItem :: "jsval option option"
  p_type :: "stateChangeType option"

definition emptyPatch :: patch where
  "emptyPatch = \<lparr>p_highlightedIndex = None, p_inputValue = None, p_isOpen = None,
     p_selectedItem = None, p_type = None\<rparr>"

text \<open>\<^verbatim>\<open>{...a, ...b}\<close>: a key of \<open>b\<close> wins.\<close>

definition spread :: "patch \<Rightarrow> patch \<Rightarrow> patch" where
  "spread a b = \<lparr>
     p_highlightedIndex = (case p_highlightedIndex b of Some v \<Rightarrow> Some v | None \<Rightarrow> p_highlightedIndex a),
     p_inputValue = (case p_inputValue b of Some v \<Rightarrow> Some v | None \<Rightarrow> p_inputValue a),
     p_isOpen = (case p_isOpen b of Some v \<Rightarrow> Some v | None \<Rightarrow> p_isOpen a),
     p_selectedItem = (case p_selectedItem b of Some v \<Rightarrow> Some v | None \<Rightarrow> p_selectedItem a),
     p_type = (case p_type b of Some v \<Rightarrow> Some v | None \<Rightarrow> p_type a)\<rparr>"

text \<open>
  The props that can control a state field; \<open>None\<close> is \<^verbatim>\<open>undefined\<close> (the caller
  did not pass the prop). The component's and the hooks' props both extend it.
\<close>

record controlled =
  prop_highlightedIndex :: "int option option"
  prop_inputValue :: "string option"
  prop_isOpen :: "bool option"
  prop_selectedItem :: "jsval option option"

text \<open>
  The props of the \<^verbatim>\<open>Downshift\<close> component. \<open>environment\<close> is the document lookup
  \<^verbatim>\<open>environment.document.getElementById(this.getItemId(index))\<close>: \<open>None\<close> when there
  is no environment, else per index no node (\<open>None\<close>) or a node and whether it has the
  \<^verbatim>\<open>disabled\<close> attribute. The notification props (\<^verbatim>\<open>onStateChange\<close>, ...) are
  observers: their calls are recorded in the session.
\<close>

record props = controlled +
  defaultHighlightedIndex :: "int option"
  defaultIsOpen :: bool
  itemToString :: "jsval option \<Rightarrow> string"
  stateReducer :: "dstate \<Rightarrow> patch \<Rightarrow> patch"
  props_itemCount :: "int option"
  environment :: "(int \<Rightarrow> bool option) option"

text \<open>
  Every call the component makes out of a transition, in the order made. The
  second argument of a notification is \<^verbatim>\<open>getStateAndHelpers()\<close>, of which the four
  state fields are kept. \<open>CallbackCalled\<close> marks the call of a completion callback
  that is a function.
\<close>

datatype event =
    OnInputValueChange string dstate "stateChangeType option"
  | CallbackCalled
  | OnStateChange patch dstate
  | OnSelect "jsval option option" dstate
  | OnChange "jsval option" dstate
  | OnUserAction patch dstate
  | OnOuterClick dstate

text \<open>The instance: \<^verbatim>\<open>this.state\<close>, \<^verbatim>\<open>this.items\<close>, \<^verbatim>\<open>this.itemCount\<close>,
  \<^verbatim>\<open>this.isMouseDown\<close>, \<^verbatim>\<open>this.isTouchMove\<close>, and the calls made so far.\<close>

record session =
  state :: dstate
  items :: "jsval option list"
  itemCount :: "int option"
  isMouseDown :: bool
  isTouchMove :: bool
  fired :: "event list"

text \<open>\<^verbatim>\<open>stateToSet\<close> is an object or a function of the current state.\<close>

datatype stateToSet = Obj patch | Fn "dstate \<Rightarrow> patch"

text \<open>
  The completion callbacks: a caller's function, which is taken to start no
  transition of its own; the callback of the outside mouse-up and touch-end
  (\<^verbatim>\<open>() => this.props.onOuterClick(this.getStateAndHelpers())\<close>); and the callback of
  \<^verbatim>\<open>ArrowDown\<close> and \<^verbatim>\<open>ArrowUp\<close> on a closed menu, which highlights an item by the
  offset (1 or \<open>- 1\<close>) under the handler's action kind.
\<close>

datatype callback = UserCallback | OuterClick | HighlightOnOpen int stateChangeType

datatype key = highlightedIndexK | inputValueK | isOpenK | selectedItemK | typeK

section \<open>Helpers imported from utils\<close>

text \<open>
  Modelled from the spec: \<^verbatim>\<open>isControlledProp\<close> of \<^verbatim>\<open>./utils\<close>, which is not among
  the sources. Section 4.2: a field is controlled when the external props define it
  (the caller passed that prop). \<^verbatim>\<open>type\<close> is no prop.
\<close>

definition isControlledProp :: "'a controlled_scheme \<Rightarrow> key \<Rightarrow> bool" where
  "isControlledProp p k = (case k of
       highlightedIndexK \<Rightarrow> prop_highlightedIndex p \<noteq> None
     | inputValueK \<Rightarrow> prop_inputValue p \<noteq> None
     | isOpenK \<Rightarrow> prop_isOpen p \<noteq> None
     | selectedItemK \<Rightarrow> prop_selectedItem p \<noteq> None
     | typeK \<Rightarrow> False)"

text \<open>
  Modelled from the spec: \<^verbatim>\<open>getState\<close> of \<^verbatim>\<open>./utils\<close>, which is not among the
  sources. Section 4.2, \<open>resolve(fieldName, internalValue, externalProps)\<close>: if the
  props define the field, that value is authoritative; otherwise the internally
  tracked value is; applied independently for every field.
\<close>

definition getState :: "dstate \<Rightarrow> 'a controlled_scheme \<Rightarrow> dstate" where
  "getState st p = \<lparr>
     highlightedIndex = (case prop_highlightedIndex p of Some v \<Rightarrow> v | None \<Rightarrow> highlightedIndex st),
     inputValue = (case prop_inputValue p of Some v \<Rightarrow> v | None \<Rightarrow> inputValue st),
     isOpen = (case prop_isOpen p of Some v \<Rightarrow> v | None \<Rightarrow> isOpen st),
     selectedItem = (case prop_selectedItem p of Some v \<Rightarrow> v | None \<Rightarrow> selectedItem st)\<rparr>"

text \<open>
  Modelled from the spec: \<^verbatim>\<open>pickState\<close> of \<^verbatim>\<open>./utils\<close>, which is not among the
  sources. The spec's patch is a partial state with the action kind and a \<open>patch\<close>
  holds no other key, so nothing is dropped.
\<close>

definition pickState :: "patch \<Rightarrow> patch" where
  "pickState p = p"

text \<open>
  Modelled from the spec: \<^verbatim>\<open>getHighlightedIndex\<close> of \<^verbatim>\<open>./utils\<close>, which is not among
  the sources. Section 4.1, \<open>move(currentIndex, step, itemCount, isDisabled)\<close>: if
  \<open>itemCount \<le> 0\<close>, the sentinel; else, starting from \<open>currentIndex + step\<close>, walk in
  the direction of the step's sign, wrapping modulo \<open>itemCount\<close>, skipping disabled
  indices, until a non-disabled index is found or every index has been visited (then
  the sentinel). Section 3: a current index that is not within \<open>[0, itemCount)\<close> is
  normalised to the sentinel when navigation looks it up. The sentinel is \<open>- 1\<close>.
\<close>

fun walk :: "nat \<Rightarrow> int \<Rightarrow> int \<Rightarrow> int \<Rightarrow> (int \<Rightarrow> bool) \<Rightarrow> int" where
  "walk 0 cur dir n isDisabled = - 1"
| "walk (Suc k) cur dir n isDisabled =
     (if isDisabled (cur mod n) then walk k (cur + dir) dir n isDisabled else cur mod n)"

definition getHighlightedIndex ::
  "int option \<Rightarrow> int \<Rightarrow> int \<Rightarrow> (int \<Rightarrow> bool) \<Rightarrow> int" where
  "getHighlightedIndex start offset itemCount' isDisabled =
     (if itemCount' \<le> 0 then - 1
      else
        let current = (case start of
                         Some i \<Rightarrow> if 0 \<le> i \<and> i < itemCount' then i else - 1
                       | None \<Rightarrow> - 1)
        in walk (nat itemCount') (current + offset) (sgn offset) itemCount' isDisabled)"

text \<open>A call out of the component is appended to the record of calls.\<close>

definition notify :: "event \<Rightarrow> session \<Rightarrow> session" where
  "notify e s = s\<lparr>fired := fired s @ [e]\<rparr>"

section \<open>Objects and their keys\<close>

definition hasOwnProperty :: "patch \<Rightarrow> key \<Rightarrow> bool" where
  "hasOwnProperty p k = (case k of
       highlightedIndexK \<Rightarrow> p_highlightedIndex p \<noteq> None
     | inputValueK \<Rightarrow> p_inputValue p \<noteq> None
     | isOpenK \<Rightarrow> p_isOpen p \<noteq> None
     | selectedItemK \<Rightarrow> p_selectedItem p \<noteq> None
     | typeK \<Rightarrow> p_type p \<noteq> None)"

text \<open>\<^verbatim>\<open>Object.keys\<close>. A \<open>patch\<close> keeps no insertion order; the loop body of
  \<^verbatim>\<open>internalSetState\<close> touches the slots of its own key only.\<close>

definition keysOf :: "patch \<Rightarrow> key list" where
  "keysOf p = filter (hasOwnProperty p)
     [highlightedIndexK, inputValueK, isOpenK, selectedItemK, typeK]"

text \<open>\<^verbatim>\<open>state[key] !== newStateToSet[key]\<close>; the state has no \<^verbatim>\<open>type\<close>.\<close>

definition differs :: "dstate \<Rightarrow> patch \<Rightarrow> key \<Rightarrow> bool" where
  "differs st new k = (case k of
       highlightedIndexK \<Rightarrow> Some (highlightedIndex st) \<noteq> p_highlightedIndex new
     | inputValueK \<Rightarrow> Some (inputValue st) \<noteq> p_inputValue new
     | isOpenK \<Rightarrow> Some (isOpen st) \<noteq> p_isOpen new
     | selectedItemK \<Rightarrow> Some (selectedItem st) \<noteq> p_selectedItem new
     | typeK \<Rightarrow> None \<noteq> p_type new)"

text \<open>\<^verbatim>\<open>target[key] = source[key]\<close>.\<close>

definition copyKey :: "key \<Rightarrow> patch \<Rightarrow> patch \<Rightarrow> patch" where
  "copyKey k source target = (case k of
       highlightedIndexK \<Rightarrow> target\<lparr>p_highlightedIndex := p_highlightedIndex source\<rparr>
     | inputValueK \<Rightarrow> target\<lparr>p_inputValue := p_inputValue source\<rparr>
     | isOpenK \<Rightarrow> target\<lparr>p_isOpen := p_isOpen source\<rparr>
     | selectedItemK \<Rightarrow> target\<lparr>p_selectedItem := p_selectedItem source\<rparr>
     | typeK \<Rightarrow> target\<lparr>p_type := p_type source\<rparr>)"

text \<open>\<^verbatim>\<open>{...state, ...patch}\<close> on the four state fields.\<close>

definition overlay :: "dstate \<Rightarrow> patch \<Rightarrow> dstate" where
  "overlay st p = \<lparr>
     highlightedIndex = (case p_highlightedIndex p of Some v \<Rightarrow> v | None \<Rightarrow> highlightedIndex st),
     inputValue = (case p_inputValue p of Some v \<Rightarrow> v | None \<Rightarrow> inputValue st),
     isOpen = (case p_isOpen p of Some v \<Rightarrow> v | None \<Rightarrow> isOpen st),
     selectedItem = (case p_selectedItem p of Some v \<Rightarrow> v | None \<Rightarrow> selectedItem st)\<rparr>"

section \<open>The Downshift component\<close>

definition getStateAndHelpers :: "props \<Rightarrow> session \<Rightarrow> dstate" where
  "getStateAndHelpers props s = getState (state s) props"

definition getItemCount :: "props \<Rightarrow> session \<Rightarrow> int" where
  "getItemCount props s =
     (if itemCount s \<noteq> None then the (itemCount s)
      else if props_itemCount props \<noteq> None then the (props_itemCount props)
      else int (length (items s)))"

definition setItemCount :: "int option \<Rightarrow> session \<Rightarrow> session" where
  "setItemCount count s = s\<lparr>itemCount := count\<rparr>"

definition unsetItemCount :: "session \<Rightarrow> session" where
  "unsetItemCount s = s\<lparr>itemCount := None\<rparr>"

definition getItemNodeFromIndex :: "props \<Rightarrow> int \<Rightarrow> bool option" where
  "getItemNodeFromIndex props index =
     (case environment props of Some document \<Rightarrow> document index | None \<Rightarrow> None)"

definition isItemDisabled :: "props \<Rightarrow> int \<Rightarrow> bool" where
  "isItemDisabled props index =
     (case getItemNodeFromIndex props index of Some disabled \<Rightarrow> disabled | None \<Rightarrow> False)"

text \<open>The body of the loop over \<^verbatim>\<open>Object.keys(newStateToSet)\<close>, on
  \<open>(onStateChangeArg, nextFullState, nextState)\<close>.\<close>

definition forEachKey ::
  "props \<Rightarrow> dstate \<Rightarrow> patch \<Rightarrow> key \<Rightarrow> patch \<times> patch \<times> patch \<Rightarrow> patch \<times> patch \<times> patch" where
  "forEachKey props st newStateToSet k acc =
     (case acc of (onStateChangeArg, nextFullState, nextState) \<Rightarrow>
        let onStateChangeArg' =
              (if differs st newStateToSet k then copyKey k newStateToSet onStateChangeArg
               else onStateChangeArg)
        in if k = typeK then (onStateChangeArg', nextFullState, nextState)
           else (onStateChangeArg', copyKey k newStateToSet nextFullState,
                 if \<not> isControlledProp props k then copyKey k newStateToSet nextState
                 else nextState))"

text \<open>React's \<^verbatim>\<open>setState\<close> merges the partial state the updater returns.\<close>

definition mergeState :: "dstate \<Rightarrow> patch \<Rightarrow> dstate" where
  "mergeState st nextState = overlay st nextState"

text \<open>
  \<^verbatim>\<open>internalSetState\<close>, in its parts. Props stay fixed during a transition.

  \<open>updater\<close> is the first function handed to \<^verbatim>\<open>setState\<close>. It returns
  \<^verbatim>\<open>nextState\<close> and what it assigns to the variables of the enclosing call
  (\<^verbatim>\<open>isItemSelected\<close>, \<^verbatim>\<open>onChangeArg\<close>, \<^verbatim>\<open>onStateChangeArg\<close>), with the session after
  its call of \<^verbatim>\<open>onInputValueChange\<close>.
\<close>

record updated =
  isItemSelected :: bool
  onChangeArg :: "jsval option option"
  onStateChangeArg :: patch
  nextState :: patch
  after :: session

definition updater :: "props \<Rightarrow> stateToSet \<Rightarrow> session \<Rightarrow> updated" where
  "updater props stateToSet' s =
     (let
        st = getState (state s) props;
        reduced = stateReducer props st
                    (case stateToSet' of Fn f \<Rightarrow> f st | Obj p \<Rightarrow> p);
        selected = hasOwnProperty reduced selectedItemK;
        newStateToSet = reduced\<lparr>p_type :=
                          Some (case p_type reduced of Some t \<Rightarrow> t | None \<Rightarrow> unknown)\<rparr>;
        acc = fold (forEachKey props st newStateToSet) (keysOf newStateToSet)
                (emptyPatch, emptyPatch, emptyPatch)
      in \<lparr>isItemSelected = selected,
          onChangeArg = (if selected \<and> p_selectedItem reduced \<noteq> Some (selectedItem st)
                         then p_selectedItem reduced else None),
          onStateChangeArg = fst acc,
          nextState = snd (snd acc),
          after = (case stateToSet' of
                     Fn f \<Rightarrow>
                       (case p_inputValue newStateToSet of
                          Some v \<Rightarrow>
                            notify (OnInputValueChange v
                                      (overlay (getStateAndHelpers props s) newStateToSet)
                                      (p_type newStateToSet)) s
                        | None \<Rightarrow> s)
                   | Obj p \<Rightarrow> s)\<rparr>)"

text \<open>
  The call \<^verbatim>\<open>internalSetState\<close> makes before \<^verbatim>\<open>setState\<close>: \<^verbatim>\<open>onInputValueChange\<close>, when
  \<^verbatim>\<open>stateToSet\<close> is an object that names \<^verbatim>\<open>inputValue\<close>.
\<close>

definition earlyCall :: "props \<Rightarrow> stateToSet \<Rightarrow> session \<Rightarrow> session" where
  "earlyCall props stateToSet' s =
     (case stateToSet' of
        Obj p \<Rightarrow>
          (case p_inputValue p of
             Some v \<Rightarrow>
               notify (OnInputValueChange v
                         (overlay (getStateAndHelpers props s) p) (p_type p)) s
           | None \<Rightarrow> s)
      | Fn f \<Rightarrow> s)"

text \<open>
  A call of \<^verbatim>\<open>setHighlightedIndex\<close> made while a post-commit function runs. React
  does not run a \<^verbatim>\<open>setState\<close> made there at once: it keeps the request and runs it
  once the post-commit function has returned. The call before \<^verbatim>\<open>setState\<close> is made
  at once. The result is the session and the request kept.
\<close>

definition setHighlightedIndex_deferred ::
  "props \<Rightarrow> int option option \<Rightarrow> patch \<Rightarrow> session \<Rightarrow> session \<times> stateToSet list" where
  "setHighlightedIndex_deferred props highlightedIndex' otherStateToSet s =
     (let stateToSet' =
            Obj (spread
                   (emptyPatch\<lparr>p_highlightedIndex :=
                      Some (case highlightedIndex' of
                              Some h \<Rightarrow> h
                            | None \<Rightarrow> defaultHighlightedIndex props)\<rparr>)
                   (pickState otherStateToSet))
      in (earlyCall props stateToSet' s, [stateToSet']))"

text \<open>
  The bodies of the completion callbacks, run while a post-commit function runs:
  the session after the calls the body makes at once, and the \<^verbatim>\<open>setState\<close>
  requests it leaves with React.
\<close>

definition callCallback ::
  "props \<Rightarrow> callback \<Rightarrow> session \<Rightarrow> session \<times> stateToSet list" where
  "callCallback props f s =
     (case f of
        UserCallback \<Rightarrow> (s, [])
      | OuterClick \<Rightarrow> (notify (OnOuterClick (getStateAndHelpers props s)) s, [])
      | HighlightOnOpen offset t \<Rightarrow>
          (let itemCount' = getItemCount props s
           in if itemCount' > 0
              then setHighlightedIndex_deferred props
                     (Some (Some (getHighlightedIndex
                                    (highlightedIndex (getState (state s) props))
                                    offset itemCount' (isItemDisabled props))))
                     (emptyPatch\<lparr>p_type := Some t\<rparr>) s
              else (s, [])))"

text \<open>
  Modelled from the spec: \<^verbatim>\<open>cbToCb\<close> of \<^verbatim>\<open>./utils\<close>, which is not among the
  sources. Section 4.4, step 6: a completion callback is invoked if one was attached
  to the originating call; a call without one (\<open>None\<close>) invokes nothing. \<open>cbToCb\<close>
  is \<^verbatim>\<open>cbToCb(cb)()\<close>; the call of a callback is recorded.
\<close>

definition cbToCb ::
  "props \<Rightarrow> callback option \<Rightarrow> session \<Rightarrow> session \<times> stateToSet list" where
  "cbToCb props cb s =
     (case cb of
        Some f \<Rightarrow> callCallback props f (notify CallbackCalled s)
      | None \<Rightarrow> (s, []))"

text \<open>\<open>afterSetState\<close> is the second function handed to \<^verbatim>\<open>setState\<close>, run once
  the state is merged. It returns the \<^verbatim>\<open>setState\<close> requests made while it ran.\<close>

definition afterSetState ::
  "props \<Rightarrow> stateToSet \<Rightarrow> callback option \<Rightarrow> updated \<Rightarrow> session
     \<Rightarrow> session \<times> stateToSet list" where
  "afterSetState props stateToSet' cb u s =
     (let
        called = cbToCb props cb s;
        s1 = fst called;
        hasMoreStateThanType = length (keysOf (onStateChangeArg u)) > 1;
        s2 = (if hasMoreStateThanType
              then notify (OnStateChange (onStateChangeArg u) (getStateAndHelpers props s1)) s1
              else s1);
        s3 = (if isItemSelected u
              then notify (OnSelect (case stateToSet' of
                                       Obj p \<Rightarrow> p_selectedItem p
                                     | Fn f \<Rightarrow> None)
                             (getStateAndHelpers props s2)) s2
              else s2);
        s4 = (case onChangeArg u of
                Some v \<Rightarrow> notify (OnChange v (getStateAndHelpers props s3)) s3
              | None \<Rightarrow> s3)
      in (notify (OnUserAction (onStateChangeArg u) (getStateAndHelpers props s4)) s4,
          snd called))"

text \<open>
  React's \<^verbatim>\<open>setState(updater, callback)\<close> with the two functions of
  \<^verbatim>\<open>internalSetState\<close>: the updater runs on the current state, its result is merged,
  the post-commit function runs. The result is the session and the requests made
  while the post-commit function ran.
\<close>

definition setState ::
  "props \<Rightarrow> stateToSet \<Rightarrow> callback option \<Rightarrow> session \<Rightarrow> session \<times> stateToSet list" where
  "setState props stateToSet' cb s =
     (let u = updater props stateToSet' s;
          s2 = (after u)\<lparr>state := mergeState (state (after u)) (nextState u)\<rparr>
      in afterSetState props stateToSet' cb u s2)"

text \<open>
  \<^verbatim>\<open>internalSetState\<close>, called outside a post-commit function. The requests its
  completion callback made are run after its own post-commit function, in order,
  each a \<^verbatim>\<open>setState\<close> of its own without a completion callback.
\<close>

definition internalSetState ::
  "props \<Rightarrow> stateToSet \<Rightarrow> callback option \<Rightarrow> session \<Rightarrow> session" where
  "internalSetState props stateToSet' cb s =
     (let s1 = earlyCall props stateToSet' s;
          result = setState props stateToSet' cb s1
      in fold (\<lambda>request s'. fst (setState props request None s')) (snd result)
           (fst result))"

definition setHighlightedIndex ::
  "props \<Rightarrow> int option option \<Rightarrow> patch \<Rightarrow> session \<Rightarrow> session" where
  "setHighlightedIndex props highlightedIndex' otherStateToSet s =
     internalSetState props
       (Obj (spread
               (emptyPatch\<lparr>p_highlightedIndex :=
                  Some (case highlightedIndex' of
                          Some h \<Rightarrow> h
                        | None \<Rightarrow> defaultHighlightedIndex props)\<rparr>)
               (pickState otherStateToSet)))
       None s"

definition moveHighlightedIndex :: "props \<Rightarrow> int \<Rightarrow> patch \<Rightarrow> session \<Rightarrow> session" where
  "moveHighlightedIndex props amount otherStateToSet s =
     (let itemCount' = getItemCount props s;
          highlightedIndex' = highlightedIndex (getState (state s) props)
      in if itemCount' > 0
         then setHighlightedIndex props
                (Some (Some (getHighlightedIndex highlightedIndex' amount itemCount'
                               (isItemDisabled props))))
                otherStateToSet s
         else s)"


definition selectItem ::
  "props \<Rightarrow> jsval option \<Rightarrow> patch \<Rightarrow> callback option \<Rightarrow> session \<Rightarrow> session" where
  "selectItem props item otherStateToSet cb s =
     internalSetState props
       (Obj (spread
               \<lparr>p_highlightedIndex = Some (defaultHighlightedIndex props),
                p_inputValue = Some (itemToString props item),
                p_isOpen = Some (defaultIsOpen props),
                p_selectedItem = Some item,
                p_type = None\<rparr>
               (pickState otherStateToSet)))
       cb s"

text \<open>\<^verbatim>\<open>this.items[index]\<close>: \<^verbatim>\<open>undefined\<close> outside the array and for a
  \<^verbatim>\<open>null\<close> index.\<close>

definition itemAt :: "jsval option list \<Rightarrow> int option \<Rightarrow> jsval option" where
  "itemAt xs index =
     (case index of
        Some i \<Rightarrow> if 0 \<le> i \<and> i < int (length xs) then xs ! nat i else None
      | None \<Rightarrow> None)"

definition selectItemAtIndex ::
  "props \<Rightarrow> int option \<Rightarrow> patch \<Rightarrow> callback option \<Rightarrow> session \<Rightarrow> session" where
  "selectItemAtIndex props itemIndex otherStateToSet cb s =
     (let item = itemAt (items s) itemIndex
      in if item = None then s
         else selectItem props item otherStateToSet cb s)"

definition selectHighlightedItem ::
  "props \<Rightarrow> patch \<Rightarrow> callback option \<Rightarrow> session \<Rightarrow> session" where
  "selectHighlightedItem props otherStateToSet cb s =
     selectItemAtIndex props (highlightedIndex (getState (state s) props))
       otherStateToSet cb s"

definition reset ::
  "props \<Rightarrow> patch \<Rightarrow> callback option \<Rightarrow> session \<Rightarrow> session" where
  "reset props otherStateToSet cb s =
     internalSetState props
       (Fn (\<lambda>st. spread
               \<lparr>p_highlightedIndex = Some (defaultHighlightedIndex props),
                p_inputValue = Some (itemToString props (selectedItem st)),
                p_isOpen = Some (defaultIsOpen props),
                p_selectedItem = None,
                p_type = None\<rparr>
               (pickState otherStateToSet)))
       cb s"

subsection \<open>Key handlers\<close>

text \<open>A keydown event; a handler returns whether it called
  \<^verbatim>\<open>event.preventDefault()\<close> and the session it leaves.\<close>

record keyEvent =
  which :: int
  shiftKey :: bool

definition typed :: "stateChangeType \<Rightarrow> patch" where
  "typed t = emptyPatch\<lparr>p_type := Some t\<rparr>"

text \<open>On a closed menu the arrow handlers pass the callback \<open>HighlightOnOpen\<close>, whose
  body is in \<open>cbToCb\<close>.\<close>

definition ArrowDown :: "props \<Rightarrow> keyEvent \<Rightarrow> session \<Rightarrow> bool \<times> session" where
  "ArrowDown props event s =
     (True,
      if isOpen (getState (state s) props)
      then moveHighlightedIndex props (if shiftKey event then 5 else 1)
             (typed keyDownArrowDown) s
      else internalSetState props
             (Obj (emptyPatch\<lparr>p_isOpen := Some True, p_type := Some keyDownArrowDown\<rparr>))
             (Some (HighlightOnOpen 1 keyDownArrowDown))
             s)"

definition ArrowUp :: "props \<Rightarrow> keyEvent \<Rightarrow> session \<Rightarrow> bool \<times> session" where
  "ArrowUp props event s =
     (True,
      if isOpen (getState (state s) props)
      then moveHighlightedIndex props (if shiftKey event then - 5 else - 1)
             (typed keyDownArrowUp) s
      else internalSetState props
             (Obj (emptyPatch\<lparr>p_isOpen := Some True, p_type := Some keyDownArrowUp\<rparr>))
             (Some (HighlightOnOpen (- 1) keyDownArrowUp))
             s)"

definition Enter :: "props \<Rightarrow> keyEvent \<Rightarrow> session \<Rightarrow> bool \<times> session" where
  "Enter props event s =
     (if which event = 229 then (False, s)
      else
        let st = getState (state s) props
        in if isOpen st \<and> highlightedIndex st \<noteq> None
           then
             let item = itemAt (items s) (highlightedIndex st);
                 itemNode = getItemNodeFromIndex props (the (highlightedIndex st))
             in if item = None \<or> itemNode = Some True then (True, s)
                else (True, selectHighlightedItem props (typed keyDownEnter) None s)
           else (False, s))"

text \<open>\<^verbatim>\<open>Escape\<close> reads \<^verbatim>\<open>this.state.isOpen\<close>, the internal copy.\<close>

definition Escape :: "props \<Rightarrow> keyEvent \<Rightarrow> session \<Rightarrow> bool \<times> session" where
  "Escape props event s =
     (True,
      reset props
        (spread (typed keyDownEscape)
           (if \<not> isOpen (state s)
            then emptyPatch\<lparr>p_selectedItem := Some None, p_inputValue := Some []\<rparr>
            else emptyPatch))
        None s)"

subsection \<open>The input\<close>


subsection \<open>Blur and outside interaction\<close>

text \<open>
  The bodies the blur handlers schedule with \<^verbatim>\<open>internalSetTimeout\<close>, at the time
  the timer fires. What they read of the document is an argument:
  \<open>downshiftButtonIsActive\<close> as the source computes it; for the button, whether
  \<^verbatim>\<open>activeElement\<close> is the input (\<^verbatim>\<open>activeElement.id === this.inputId\<close>) and whether
  it is the blur target.
\<close>

definition inputHandleBlur :: "props \<Rightarrow> bool \<Rightarrow> session \<Rightarrow> session" where
  "inputHandleBlur props downshiftButtonIsActive s =
     (if isMouseDown s \<or> environment props = None then s
      else if \<not> downshiftButtonIsActive then reset props (typed blurInput) None s
      else s)"

definition buttonHandleBlur :: "props \<Rightarrow> bool \<Rightarrow> bool \<Rightarrow> session \<Rightarrow> session" where
  "buttonHandleBlur props activeIsInput activeIsBlurTarget s =
     (if isMouseDown s \<or> environment props = None then s
      else if \<not> activeIsInput \<and> \<not> activeIsBlurTarget
      then reset props (typed blurButton) None s
      else s)"

text \<open>The listeners of \<^verbatim>\<open>componentDidMount\<close>; \<open>contextWithinDownshift\<close> is the
  result of \<^verbatim>\<open>targetWithinDownshift\<close>.\<close>

definition onMouseDown :: "session \<Rightarrow> session" where
  "onMouseDown s = s\<lparr>isMouseDown := True\<rparr>"

definition onMouseUp :: "props \<Rightarrow> bool \<Rightarrow> session \<Rightarrow> session" where
  "onMouseUp props contextWithinDownshift s =
     (let s' = s\<lparr>isMouseDown := False\<rparr>
      in if \<not> contextWithinDownshift \<and> isOpen (getState (state s') props)
         then reset props (typed mouseUp)
                (Some OuterClick) s'
         else s')"

definition onTouchStart :: "session \<Rightarrow> session" where
  "onTouchStart s = s\<lparr>isTouchMove := False\<rparr>"

definition onTouchMove :: "session \<Rightarrow> session" where
  "onTouchMove s = s\<lparr>isTouchMove := True\<rparr>"

definition onTouchEnd :: "props \<Rightarrow> bool \<Rightarrow> session \<Rightarrow> session" where
  "onTouchEnd props contextWithinDownshift s =
     (if \<not> isTouchMove s \<and> \<not> contextWithinDownshift \<and> isOpen (getState (state s) props)
      then reset props (typed touchEnd)
             (Some OuterClick) s
      else s)"

subsection \<open>Default props\<close>

fun showNat :: "nat \<Rightarrow> string" where
  "showNat n =
     (if n < 10 then [''0123456789'' ! n]
      else showNat (n div 10) @ [''0123456789'' ! (n mod 10)])"

declare showNat.simps [simp del]

text \<open>\<^verbatim>\<open>String(i)\<close> on an integer, a string and a plain object.\<close>

definition String_of :: "jsval \<Rightarrow> string" where
  "String_of v = (case v of
       JNum n \<Rightarrow> if n < 0 then CHR ''-'' # showNat (nat (- n)) else showNat (nat n)
     | JStr s \<Rightarrow> s
     | JObj r \<Rightarrow> ''[object Object]'')"

text \<open>\<^verbatim>\<open>defaultProps\<close>, on the props modelled; \<open>window\<close> is the environment found
  (\<open>None\<close> when \<^verbatim>\<open>typeof window === 'undefined'\<close>).\<close>

definition defaultProps :: "(int \<Rightarrow> bool option) option \<Rightarrow> props" where
  "defaultProps window = \<lparr>
     prop_highlightedIndex = None,
     prop_inputValue = None,
     prop_isOpen = None,
     prop_selectedItem = None,
     defaultHighlightedIndex = None,
     defaultIsOpen = False,
     itemToString = (\<lambda>i. case i of None \<Rightarrow> [] | Some v \<Rightarrow> String_of v),
     stateReducer = (\<lambda>state stateToSet. stateToSet),
     props_itemCount = None,
     environment = window\<rparr>"

section \<open>The hooks' shared utilities\<close>

text \<open>
  The hooks' props, as far as the functions below read them. An action is opaque
  (\<open>'act\<close>); \<^verbatim>\<open>action.props\<close> is passed beside it, and \<^verbatim>\<open>{...action, changes}\<close> is the
  action with the changes beside it. A hook's state and its reducer's changes are
  full states.
\<close>

record 'act hookProps = controlled +
  hook_items :: "jsval list"
  initialHighlightedIndex :: "int option"
  hook_defaultHighlightedIndex :: "int option"
  hook_stateReducer :: "dstate \<Rightarrow> 'act \<Rightarrow> dstate \<Rightarrow> dstate"

text \<open>The default \<^verbatim>\<open>stateReducer(s, a)\<close> returns \<^verbatim>\<open>a.changes\<close>.\<close>

definition default_stateReducer :: "dstate \<Rightarrow> 'act \<Rightarrow> dstate \<Rightarrow> dstate" where
  "default_stateReducer s a changes = changes"

text \<open>\<^verbatim>\<open>enhancedReducer\<close> of \<^verbatim>\<open>useEnhancedReducer\<close>: the state \<^verbatim>\<open>useReducer\<close> keeps
  after a dispatch.\<close>

definition useEnhancedReducer ::
  "(dstate \<Rightarrow> 'act \<Rightarrow> dstate) \<Rightarrow> 'act hookProps \<Rightarrow> dstate \<Rightarrow> 'act \<Rightarrow> dstate" where
  "useEnhancedReducer reducer actionProps state' action =
     (let state'' = getState state' actionProps;
          changes = reducer state'' action;
          newState = hook_stateReducer actionProps state'' action changes
      in newState)"

text \<open>\<^verbatim>\<open>useControlledReducer\<close>: the state returned to the hook, for the state
  \<^verbatim>\<open>useEnhancedReducer\<close> keeps.\<close>

definition useControlledReducer :: "'act hookProps \<Rightarrow> dstate \<Rightarrow> dstate" where
  "useControlledReducer props state' = getState state' props"

text \<open>JavaScript truthiness of an item, and \<^verbatim>\<open>Array.prototype.indexOf\<close>.\<close>

definition truthy :: "jsval option \<Rightarrow> bool" where
  "truthy v = (case v of
       None \<Rightarrow> False
     | Some (JNum n) \<Rightarrow> n \<noteq> 0
     | Some (JStr s) \<Rightarrow> s \<noteq> []
     | Some (JObj r) \<Rightarrow> True)"

fun indexOf :: "'a list \<Rightarrow> 'a \<Rightarrow> int" where
  "indexOf [] x = - 1"
| "indexOf (y # ys) x =
     (if y = x then 0
      else let r = indexOf ys x in if r < 0 then - 1 else r + 1)"

definition getHighlightedIndexOnOpen :: "'act hookProps \<Rightarrow> dstate \<Rightarrow> int \<Rightarrow> int" where
  "getHighlightedIndexOnOpen props state' offset =
     (if length (hook_items props) = 0 then - 1
      else if initialHighlightedIndex props \<noteq> None
              \<and> highlightedIndex state' = initialHighlightedIndex props
      then the (initialHighlightedIndex props)
      else if hook_defaultHighlightedIndex props \<noteq> None
      then the (hook_defaultHighlightedIndex props)
      else if truthy (selectedItem state')
      then indexOf (hook_items props) (the (selectedItem state'))
      else if offset = 0 then - 1
      else if offset < 0 then int (length (hook_items props)) - 1 else 0)"

section \<open>The session's transition as the spec words it\<close>

text \<open>
  Section 4.4, steps 3 and 4, on the override-adjusted patch \<open>out\<close>: the changeset
  holds the fields of the patch whose value differs from the effective current
  state, with the action kind (\<open>unknown\<close> when the patch names none); the commit
  writes the fields of the patch that are not externally controlled into the
  internally tracked state.
\<close>

definition spec_changeset :: "dstate \<Rightarrow> patch \<Rightarrow> patch" where
  "spec_changeset eff out = \<lparr>
     p_highlightedIndex = (if p_highlightedIndex out = Some (highlightedIndex eff) then None
                           else p_highlightedIndex out),
     p_inputValue = (if p_inputValue out = Some (inputValue eff) then None
                     else p_inputValue out),
     p_isOpen = (if p_isOpen out = Some (isOpen eff) then None else p_isOpen out),
     p_selectedItem = (if p_selectedItem out = Some (selectedItem eff) then None
                       else p_selectedItem out),
     p_type = Some (case p_type out of Some t \<Rightarrow> t | None \<Rightarrow> unknown)\<rparr>"

definition spec_commit :: "props \<Rightarrow> dstate \<Rightarrow> patch \<Rightarrow> dstate" where
  "spec_commit props internal out = \<lparr>
     highlightedIndex = (case p_highlightedIndex out of
                           Some v \<Rightarrow> if prop_highlightedIndex props = None then v
                                     else highlightedIndex internal
                         | None \<Rightarrow> highlightedIndex internal),
     inputValue = (case p_inputValue out of
                     Some v \<Rightarrow> if prop_inputValue props = None then v else inputValue internal
                   | None \<Rightarrow> inputValue internal),
     isOpen = (case p_isOpen out of
                 Some v \<Rightarrow> if prop_isOpen props = None then v else isOpen internal
               | None \<Rightarrow> isOpen internal),
     selectedItem = (case p_selectedItem out of
                       Some v \<Rightarrow> if prop_selectedItem props = None then v
                                 else selectedItem internal
                     | None \<Rightarrow> selectedItem internal)\<rparr>"

text \<open>A changeset that names no state field: it holds the action kind alone.\<close>

definition typeOnly :: "patch \<Rightarrow> bool" where
  "typeOnly c = (p_highlightedIndex c = None \<and> p_inputValue c = None
                 \<and> p_isOpen c = None \<and> p_selectedItem c = None)"

text \<open>The proposal a transition hands to the override, and the override's output.\<close>

definition proposal :: "props \<Rightarrow> stateToSet \<Rightarrow> session \<Rightarrow> patch" where
  "proposal props stateToSet' s =
     (case stateToSet' of Obj p \<Rightarrow> p | Fn f \<Rightarrow> f (getState (state s) props))"

definition overridden :: "props \<Rightarrow> stateToSet \<Rightarrow> session \<Rightarrow> patch" where
  "overridden props stateToSet' s =
     stateReducer props (getState (state s) props) (proposal props stateToSet' s)"

text \<open>
  The calls \<^verbatim>\<open>internalSetState\<close> makes before the completion callback (\<open>early\<close>)
  and after it (\<open>late\<close>), in closed form on the override's output; \<open>snap\<close> is the
  effective state the late calls are handed.
\<close>

definition early :: "props \<Rightarrow> stateToSet \<Rightarrow> session \<Rightarrow> event list" where
  "early props stateToSet' s =
     (let eff = getState (state s) props; out = overridden props stateToSet' s
      in case stateToSet' of
           Obj p \<Rightarrow> (case p_inputValue p of
                       Some v \<Rightarrow> [OnInputValueChange v (overlay eff p) (p_type p)]
                     | None \<Rightarrow> [])
         | Fn f \<Rightarrow> (case p_inputValue out of
                      Some v \<Rightarrow> [OnInputValueChange v (overlay eff out)
                                   (Some (case p_type out of Some t \<Rightarrow> t | None \<Rightarrow> unknown))]
                    | None \<Rightarrow> []))"

definition late :: "props \<Rightarrow> stateToSet \<Rightarrow> session \<Rightarrow> dstate \<Rightarrow> event list" where
  "late props stateToSet' s snap =
     (let eff = getState (state s) props; out = overridden props stateToSet' s;
          c = spec_changeset eff out
      in (if typeOnly c then [] else [OnStateChange c snap])
         @ (if p_selectedItem out \<noteq> None
            then [OnSelect (case stateToSet' of Obj p \<Rightarrow> p_selectedItem p | Fn f \<Rightarrow> None) snap]
            else [])
         @ (if p_selectedItem out \<noteq> None \<and> p_selectedItem out \<noteq> Some (selectedItem eff)
            then [OnChange (the (p_selectedItem out)) snap] else [])
         @ [OnUserAction c snap])"




section \<open>Example sessions\<close>

text \<open>
  The collection \<open>["a", "b", "c"]\<close> of the spec's scenarios, rendered in a document
  with a node for each item and none disabled, under the default props; the
  session as constructed (closed, nothing highlighted or selected).
\<close>

definition exampleProps :: props where
  "exampleProps = defaultProps (Some (\<lambda>i. if 0 \<le> i \<and> i < 3 then Some False else None))"

definition exampleState :: dstate where
  "exampleState = \<lparr>highlightedIndex = None, inputValue = [], isOpen = False,
     selectedItem = None\<rparr>"

definition exampleSession :: session where
  "exampleSession = \<lparr>state = exampleState,
     items = [Some (JStr ''a''), Some (JStr ''b''), Some (JStr ''c'')],
     itemCount = None, isMouseDown = False, isTouchMove = False, fired = []\<rparr>"

text \<open>The same session, open with the item at \<open>i\<close> highlighted.\<close>

definition openAt :: "int \<Rightarrow> session" where
  "openAt i = exampleSession\<lparr>state := exampleState\<lparr>isOpen := True,
     highlightedIndex := Some i\<rparr>\<rparr>"

definition keyDown :: "int \<Rightarrow> keyEvent" where
  "keyDown code = \<lparr>which = code, shiftKey = False\<rparr>"

text \<open>The open session after its item list has shrunk to nothing, the highlight
  still at 2.\<close>

definition emptied :: session where
  "emptied = (openAt 2)\<lparr>items := []\<rparr>"

text \<open>Props of a hook over the same collection, with \<^verbatim>\<open>defaultHighlightedIndex\<close> 7.\<close>

definition exampleHookProps :: "unit hookProps" where
  "exampleHookProps = \<lparr>prop_highlightedIndex = None, prop_inputValue = None,
     prop_isOpen = None, prop_selectedItem = None,
     hook_items = [JStr ''a'', JStr ''b'', JStr ''c''],
     initialHighlightedIndex = None, hook_defaultHighlightedIndex = Some 7,
     hook_stateReducer = default_stateReducer\<rparr>"

text \<open>
  A component constructed with \<^verbatim>\<open>isOpen={false}\<close> whose parent has since passed
  \<^verbatim>\<open>isOpen={true}\<close>: the internal copy of \<^verbatim>\<open>isOpen\<close> is still \<open>False\<close>, the effective
  value is \<open>True\<close>. The item \<open>"b"\<close> is selected.
\<close>

definition controlledOpen :: props where
  "controlledOpen = exampleProps\<lparr>prop_isOpen := Some True\<rparr>"

definition selectedB :: session where
  "selectedB = exampleSession\<lparr>state := exampleState\<lparr>selectedItem := Some (JStr ''b''),
     inputValue := ''b''\<rparr>\<rparr>"




text \<open>A patch that sets \<^verbatim>\<open>isOpen\<close> and \<^verbatim>\<open>inputValue\<close> together.\<close>

definition parked :: stateToSet where
  "parked = Obj (emptyPatch\<lparr>p_isOpen := Some False, p_inputValue := Some ''x''\<rparr>)"

section \<open>Properties of a state under props\<close>

text \<open>Every controlled field of \<open>eff\<close> has the value of its prop.\<close>

definition controlledAgree :: "'a controlled_scheme \<Rightarrow> dstate \<Rightarrow> bool" where
  "controlledAgree p eff =
     ((\<forall>v. prop_highlightedIndex p = Some v \<longrightarrow> highlightedIndex eff = v)
      \<and> (\<forall>v. prop_inputValue p = Some v \<longrightarrow> inputValue eff = v)
      \<and> (\<forall>v. prop_isOpen p = Some v \<longrightarrow> isOpen eff = v)
      \<and> (\<forall>v. prop_selectedItem p = Some v \<longrightarrow> selectedItem eff = v))"

text \<open>Every field that is not controlled and that the patch \<open>out\<close> names has the
  patch's value in \<open>st\<close>.\<close>

definition uncontrolledWritten :: "'a controlled_scheme \<Rightarrow> patch \<Rightarrow> dstate \<Rightarrow> bool" where
  "uncontrolledWritten p out st =
     ((\<forall>v. prop_highlightedIndex p = None \<and> p_highlightedIndex out = Some v
           \<longrightarrow> highlightedIndex st = v)
      \<and> (\<forall>v. prop_inputValue p = None \<and> p_inputValue out = Some v \<longrightarrow> inputValue st = v)
      \<and> (\<forall>v. prop_isOpen p = None \<and> p_isOpen out = Some v \<longrightarrow> isOpen st = v)
      \<and> (\<forall>v. prop_selectedItem p = None \<and> p_selectedItem out = Some v
           \<longrightarrow> selectedItem st = v))"

text \<open>Every field of \<open>eff\<close> that is not controlled has the value it has in \<open>new\<close>.\<close>

definition uncontrolledFrom :: "'a controlled_scheme \<Rightarrow> dstate \<Rightarrow> dstate \<Rightarrow> bool" where
  "uncontrolledFrom p new eff =
     ((prop_highlightedIndex p = None \<longrightarrow> highlightedIndex eff = highlightedIndex new)
      \<and> (prop_inputValue p = None \<longrightarrow> inputValue eff = inputValue new)
      \<and> (prop_isOpen p = None \<longrightarrow> isOpen eff = isOpen new)
      \<and> (prop_selectedItem p = None \<longrightarrow> selectedItem eff = selectedItem new))"


section \<open>The transition in closed form\<close>

lemma notify_state [simp]: "state (notify e s) = state s"
  by (simp add: notify_def)

lemma notify_fired [simp]: "fired (notify e s) = fired s @ [e]"
  by (simp add: notify_def)

lemma fold_changes:
  "p_type new = Some t \<Longrightarrow>
   fst (fold (forEachKey props st new) (keysOf new) (emptyPatch, emptyPatch, emptyPatch))
     = spec_changeset st new"
  by (cases "p_highlightedIndex new"; cases "p_inputValue new"; cases "p_isOpen new";
      cases "p_selectedItem new")
     (simp_all add: keysOf_def hasOwnProperty_def forEachKey_def differs_def copyKey_def
        emptyPatch_def spec_changeset_def)

lemma fold_next:
  "p_type new = Some t \<Longrightarrow>
   mergeState st0 (snd (snd (fold (forEachKey props st new) (keysOf new)
       (emptyPatch, emptyPatch, emptyPatch))))
     = spec_commit props st0 new"
  by (cases "p_highlightedIndex new"; cases "p_inputValue new"; cases "p_isOpen new";
      cases "p_selectedItem new")
     (auto simp add: keysOf_def hasOwnProperty_def forEachKey_def differs_def copyKey_def
        emptyPatch_def spec_commit_def mergeState_def overlay_def isControlledProp_def)

lemma changeset_retype [simp]:
  "spec_changeset st (out\<lparr>p_type := Some (case p_type out of Some t \<Rightarrow> t | None \<Rightarrow> unknown)\<rparr>)
     = spec_changeset st out"
  by (simp add: spec_changeset_def split: option.splits)

lemma commit_retype [simp]:
  "spec_commit props st0 (out\<lparr>p_type := ty\<rparr>) = spec_commit props st0 out"
  by (simp add: spec_commit_def)

lemma keys_changeset:
  "(Suc 0 < length (keysOf (spec_changeset st out))) = (\<not> typeOnly (spec_changeset st out))"
  by (simp add: keysOf_def hasOwnProperty_def typeOnly_def spec_changeset_def)

lemma reduced_eq:
  "stateReducer props (getState (state s) props)
     (case sts of Fn f \<Rightarrow> f (getState (state s) props) | Obj p \<Rightarrow> p)
   = overridden props sts s"
  by (simp add: overridden_def proposal_def split: stateToSet.splits)

lemma updater_isItemSelected:
  "isItemSelected (updater props sts s) = (p_selectedItem (overridden props sts s) \<noteq> None)"
  by (simp add: updater_def Let_def reduced_eq hasOwnProperty_def)

lemma updater_onChangeArg:
  "onChangeArg (updater props sts s) =
     (if p_selectedItem (overridden props sts s) \<noteq> Some (selectedItem (getState (state s) props))
      then p_selectedItem (overridden props sts s) else None)"
  by (auto simp add: updater_def Let_def reduced_eq hasOwnProperty_def)

lemma updater_onStateChangeArg:
  "onStateChangeArg (updater props sts s) =
     spec_changeset (getState (state s) props) (overridden props sts s)"
  by (simp add: updater_def Let_def reduced_eq fold_changes)

lemma updater_nextState:
  "mergeState st0 (nextState (updater props sts s)) =
     spec_commit props st0 (overridden props sts s)"
  by (simp add: updater_def Let_def reduced_eq fold_next)

lemma updater_after:
  "after (updater props sts s) =
     (case sts of Fn f \<Rightarrow> s\<lparr>fired := fired s @ early props sts s\<rparr> | Obj p \<Rightarrow> s)"
  by (cases sts)
     (simp_all add: updater_def Let_def overridden_def proposal_def early_def notify_def
        getStateAndHelpers_def overlay_def split: option.splits)

lemma afterSetState_eq:
  "afterSetState props sts cb u s =
     (let sc = fst (cbToCb props cb s); snap = getState (state sc) props
      in (sc\<lparr>fired := fired sc
            @ (if 1 < length (keysOf (onStateChangeArg u))
               then [OnStateChange (onStateChangeArg u) snap] else [])
            @ (if isItemSelected u
               then [OnSelect (case sts of Obj p \<Rightarrow> p_selectedItem p | Fn f \<Rightarrow> None) snap]
               else [])
            @ (case onChangeArg u of Some v \<Rightarrow> [OnChange v snap] | None \<Rightarrow> [])
            @ [OnUserAction (onStateChangeArg u) snap]\<rparr>,
          snd (cbToCb props cb s)))"
  by (simp add: afterSetState_def Let_def notify_def getStateAndHelpers_def
      split: option.splits)

lemma overridden_state:
  "state s' = state s \<Longrightarrow> overridden props sts s' = overridden props sts s"
  by (cases sts) (simp_all add: overridden_def proposal_def)

lemma overridden_fired [simp]:
  "overridden props sts (s\<lparr>fired := x\<rparr>) = overridden props sts s"
  by (rule overridden_state) simp

lemma early_state:
  "state s' = state s \<Longrightarrow> early props sts s' = early props sts s"
  by (cases sts) (simp_all add: early_def overridden_def proposal_def)

lemma earlyCall_eq:
  "earlyCall props sts s
     = s\<lparr>fired := fired s @ (case sts of Obj p \<Rightarrow> early props sts s | Fn f \<Rightarrow> [])\<rparr>"
  by (simp add: earlyCall_def early_def notify_def getStateAndHelpers_def
      split: stateToSet.splits option.splits)

text \<open>\<^verbatim>\<open>setState\<close> with the functions of \<^verbatim>\<open>internalSetState\<close>, after the early call:
  the commit of the override's output, the completion callback, the late calls.\<close>

lemma setState_eq:
  "setState props sts cb (earlyCall props sts s) =
     (let called = cbToCb props cb
                     (s\<lparr>state := spec_commit props (state s) (overridden props sts s),
                        fired := fired s @ early props sts s\<rparr>);
          sc = fst called
      in (sc\<lparr>fired := fired sc @ late props sts s (getState (state sc) props)\<rparr>,
          snd called))"
proof -
  define s1 where "s1 = earlyCall props sts s"
  define u where "u = updater props sts s1"
  have s1: "s1 = s\<lparr>fired := fired s @ (case sts of Obj p \<Rightarrow> early props sts s | Fn f \<Rightarrow> [])\<rparr>"
    by (simp add: s1_def earlyCall_eq)
  have st: "state s1 = state s"
    by (simp add: s1)
  have ov: "overridden props sts s1 = overridden props sts s"
    using st by (rule overridden_state)
  have ea: "early props sts s1 = early props sts s"
    using st by (rule early_state)
  have s2: "(after u)\<lparr>state := mergeState (state (after u)) (nextState u)\<rparr>
              = s\<lparr>state := spec_commit props (state s) (overridden props sts s),
                   fired := fired s @ early props sts s\<rparr>"
    by (cases sts) (simp_all add: u_def updater_after updater_nextState ov ea st, simp_all add: s1)
  have l: "(if 1 < length (keysOf (onStateChangeArg u))
              then [OnStateChange (onStateChangeArg u) snap] else [])
           @ (if isItemSelected u
              then [OnSelect (case sts of Obj p \<Rightarrow> p_selectedItem p | Fn f \<Rightarrow> None) snap]
              else [])
           @ (case onChangeArg u of Some v \<Rightarrow> [OnChange v snap] | None \<Rightarrow> [])
           @ [OnUserAction (onStateChangeArg u) snap]
           = late props sts s snap" for snap
    by (auto simp add: u_def updater_isItemSelected updater_onChangeArg updater_onStateChangeArg
        ov st keys_changeset late_def Let_def)
  show ?thesis
    unfolding setState_def Let_def
    apply (fold s1_def)
    apply (fold u_def)
    apply (simp only: s2 afterSetState_eq Let_def l)
    done
qed

text \<open>The whole of \<^verbatim>\<open>internalSetState\<close>; what the completion callback started
  follows the late calls.\<close>

lemma internalSetState_eq:
  "internalSetState props sts cb s =
     (let called = cbToCb props cb
                     (s\<lparr>state := spec_commit props (state s) (overridden props sts s),
                        fired := fired s @ early props sts s\<rparr>);
          sc = fst called
      in fold (\<lambda>request s'. fst (setState props request None s')) (snd called)
           (sc\<lparr>fired := fired sc @ late props sts s (getState (state sc) props)\<rparr>))"
  by (simp add: internalSetState_def setState_eq Let_def)

text \<open>Without a completion callback.\<close>

lemma internalSetState_None:
  "internalSetState props sts None s =
     s\<lparr>state := spec_commit props (state s) (overridden props sts s),
       fired := fired s @ early props sts s
                @ late props sts s
                    (getState (spec_commit props (state s) (overridden props sts s)) props)\<rparr>"
  by (simp add: internalSetState_eq cbToCb_def callCallback_def Let_def)


section \<open>The item count\<close>

text \<open>
  C10. The item count that navigation and the status update read resolves by fixed
  priority: a count set with \<^verbatim>\<open>setItemCount\<close> wins over the \<^verbatim>\<open>itemCount\<close> prop, which
  wins over the length of the item list; the set count stays through a transition;
  \<^verbatim>\<open>unsetItemCount\<close> after \<^verbatim>\<open>setItemCount(c)\<close> gives back the resolution by prop and
  length.
\<close>

theorem getItemCount_priority:
  "getItemCount props (setItemCount (Some c) s) = c
   \<and> getItemCount props (internalSetState props sts None (setItemCount (Some c) s)) = c
   \<and> getItemCount props (unsetItemCount (setItemCount (Some c) s))
       = getItemCount props (unsetItemCount s)
   \<and> getItemCount (props\<lparr>props_itemCount := Some n\<rparr>) (unsetItemCount s) = n
   \<and> getItemCount (props\<lparr>props_itemCount := None\<rparr>) (unsetItemCount s)
       = int (length (items s))"
  by (simp add: getItemCount_def setItemCount_def unsetItemCount_def internalSetState_None)

section \<open>Enter during composition\<close>

text \<open>
  C9. A keydown handed to the \<^verbatim>\<open>Enter\<close> handler with \<^verbatim>\<open>which\<close> 229 (a composition in
  progress) changes nothing: the session is as before, so the four state fields
  keep their values and no prop is called, whatever \<^verbatim>\<open>isOpen\<close> and
  \<^verbatim>\<open>highlightedIndex\<close> are; the default is not prevented either.
\<close>

theorem Enter_during_composition:
  "which event = 229 \<Longrightarrow> Enter props event s = (False, s)"
  by (simp add: Enter_def)

theorem Enter_during_composition_witness:
  "which (keyDown 229) = 229 \<and> Enter exampleProps (keyDown 229) (openAt 1) = (False, openAt 1)"
  using Enter_during_composition [of "keyDown 229" exampleProps "openAt 1"]
  by (simp add: keyDown_def)

section \<open>Facts about the example sessions\<close>

lemma example_simps:
  "state (openAt i) = exampleState\<lparr>isOpen := True, highlightedIndex := Some i\<rparr>"
  "items (openAt i) = [Some (JStr ''a''), Some (JStr ''b''), Some (JStr ''c'')]"
  "itemCount (openAt i) = None"
  "fired (openAt i) = []"
  "prop_highlightedIndex exampleProps = None"
  "prop_inputValue exampleProps = None"
  "prop_isOpen exampleProps = None"
  "prop_selectedItem exampleProps = None"
  "props_itemCount exampleProps = None"
  "stateReducer exampleProps = (\<lambda>st p. p)"
  "defaultIsOpen exampleProps = False"
  "defaultHighlightedIndex exampleProps = None"
  by (simp_all add: openAt_def exampleSession_def exampleProps_def defaultProps_def)

lemma example_more:
  "getItemCount exampleProps (openAt i) = 3"
  "isItemDisabled exampleProps = (\<lambda>i. False)"
  "isOpen (getState (state (openAt i)) exampleProps)"
  "\<not> shiftKey (keyDown c)"
  by (auto simp add: getItemCount_def example_simps isItemDisabled_def getItemNodeFromIndex_def
      exampleProps_def defaultProps_def getState_def exampleState_def keyDown_def fun_eq_iff)

lemma emptied_simps:
  "state emptied = exampleState\<lparr>isOpen := True, highlightedIndex := Some 2\<rparr>"
  "items emptied = []"
  "itemCount emptied = None"
  by (simp_all add: emptied_def example_simps)

section \<open>Committing a selection with nothing to select\<close>

text \<open>
  C6, as amended. When the highlighted index resolves to no item of the list (it is
  \<^verbatim>\<open>null\<close>, \<open>- 1\<close>, out of range, or the slot is empty), \<^verbatim>\<open>Enter\<close> and
  \<^verbatim>\<open>selectHighlightedItem\<close> return early: the session is as before, so
  \<^verbatim>\<open>selectedItem\<close>, \<^verbatim>\<open>isOpen\<close> and \<^verbatim>\<open>inputValue\<close> keep their values and no prop is
  called at all, \<^verbatim>\<open>onUserAction\<close> included.
\<close>

theorem commit_without_item:
  "itemAt (items s) (highlightedIndex (getState (state s) props)) = None \<Longrightarrow>
     snd (Enter props event s) = s
   \<and> selectHighlightedItem props otherStateToSet cb s = s"
  by (simp add: Enter_def Let_def selectHighlightedItem_def selectItemAtIndex_def)

theorem commit_without_item_witness:
  "itemAt (items (openAt (- 1))) (highlightedIndex (getState (state (openAt (- 1))) exampleProps)) = None
   \<and> snd (Enter exampleProps (keyDown 13) (openAt (- 1))) = openAt (- 1)
   \<and> selectHighlightedItem exampleProps emptyPatch None (openAt (- 1)) = openAt (- 1)"
  using commit_without_item [of "openAt (- 1)" exampleProps "keyDown 13" emptyPatch None]
  by (simp add: example_simps getState_def itemAt_def exampleState_def)

text \<open>The claim as stated has \<^verbatim>\<open>onUserAction\<close> fire; \<^verbatim>\<open>Enter\<close> on the open example
  with the highlight at \<open>- 1\<close> calls nothing.\<close>

theorem commit_without_item_counterexample:
  "fired (snd (Enter exampleProps (keyDown 13) (openAt (- 1)))) = []"
  by (simp add: Enter_def Let_def example_simps getState_def itemAt_def exampleState_def keyDown_def)

section \<open>Navigation\<close>

lemma getHighlightedIndex_enabled:
  assumes "0 < n" and "\<forall>i. \<not> isDisabled i" and "0 \<le> i" and "i < n"
  shows "getHighlightedIndex (Some i) offset n isDisabled = (i + offset) mod n"
proof -
  obtain k where k: "nat n = Suc k"
    using assms(1) by (cases "nat n") auto
  show ?thesis
    using assms by (simp add: getHighlightedIndex_def k)
qed

lemma mod_range:
  "0 < n \<Longrightarrow> - 1 \<le> (c::int) mod n \<and> c mod n < n"
  using pos_mod_sign [of n c] pos_mod_bound [of n c] by linarith

lemma walk_range:
  "0 < n \<Longrightarrow> - 1 \<le> walk k cur dir n isDisabled \<and> walk k cur dir n isDisabled < n"
  by (induction k arbitrary: cur) (simp_all add: mod_range)

lemma getHighlightedIndex_range:
  "0 < n \<Longrightarrow> - 1 \<le> getHighlightedIndex start offset n isDisabled
   \<and> getHighlightedIndex start offset n isDisabled < n"
  by (simp add: getHighlightedIndex_def Let_def walk_range)

lemma indexOf_range: "- 1 \<le> indexOf xs x \<and> indexOf xs x < int (length xs)"
  by (induction xs) (auto simp add: Let_def)

lemma setHighlightedIndex_state:
  "prop_highlightedIndex props = None \<Longrightarrow> \<forall>st p. stateReducer props st p = p \<Longrightarrow>
   highlightedIndex (state (setHighlightedIndex props (Some h) (typed t) s)) = h"
  by (simp add: setHighlightedIndex_def internalSetState_None overridden_def proposal_def
      spec_commit_def spread_def pickState_def typed_def emptyPatch_def)

lemma moveHighlightedIndex_state:
  assumes "0 < getItemCount props s" and "prop_highlightedIndex props = None"
    and "\<forall>st p. stateReducer props st p = p" and "p_highlightedIndex otherStateToSet = None"
  shows "highlightedIndex (state (moveHighlightedIndex props amount otherStateToSet s))
     = Some (getHighlightedIndex (highlightedIndex (getState (state s) props)) amount
               (getItemCount props s) (isItemDisabled props))"
  using assms
  by (simp add: moveHighlightedIndex_def Let_def setHighlightedIndex_def internalSetState_None
      overridden_def proposal_def spec_commit_def spread_def pickState_def emptyPatch_def)

text \<open>
  C5. With \<open>n > 0\<close> items, none disabled, a step \<open>+1\<close> from the last index \<open>n - 1\<close>
  gives 0 and a step \<open>- 1\<close> from 0 gives \<open>n - 1\<close>; and so do the \<^verbatim>\<open>ArrowDown\<close> and
  \<^verbatim>\<open>ArrowUp\<close> handlers (without shift) on an open component whose highlighted index
  is not controlled and whose \<^verbatim>\<open>stateReducer\<close> is the default. The witness is
  scenario B: three items, open at 2, arrow down gives 0.
\<close>

theorem navigation_wraps:
  "0 < n \<Longrightarrow> \<forall>i. \<not> isDisabled i \<Longrightarrow>
     getHighlightedIndex (Some (n - 1)) 1 n isDisabled = 0
   \<and> getHighlightedIndex (Some 0) (- 1) n isDisabled = n - 1
   \<and> (getItemCount props s = n \<and> isItemDisabled props = isDisabled
        \<and> isOpen (getState (state s) props) \<and> \<not> shiftKey event
        \<and> prop_highlightedIndex props = None \<and> (\<forall>st p. stateReducer props st p = p)
      \<longrightarrow> (highlightedIndex (state s) = Some (n - 1)
            \<longrightarrow> highlightedIndex (state (snd (ArrowDown props event s))) = Some 0)
        \<and> (highlightedIndex (state s) = Some 0
            \<longrightarrow> highlightedIndex (state (snd (ArrowUp props event s))) = Some (n - 1)))"
proof (intro conjI impI)
  assume n: "0 < n" and en: "\<forall>i. \<not> isDisabled i"
  show down: "getHighlightedIndex (Some (n - 1)) 1 n isDisabled = 0"
    using getHighlightedIndex_enabled [OF n en, of "n - 1" 1] n by simp
  show up: "getHighlightedIndex (Some 0) (- 1) n isDisabled = n - 1"
    using getHighlightedIndex_enabled [OF n en, of 0 "- 1"] n
    by (simp add: zmod_minus1)
  assume h: "getItemCount props s = n \<and> isItemDisabled props = isDisabled
        \<and> isOpen (getState (state s) props) \<and> \<not> shiftKey event
        \<and> prop_highlightedIndex props = None \<and> (\<forall>st p. stateReducer props st p = p)"
  then have eff: "highlightedIndex (getState (state s) props) = highlightedIndex (state s)"
    by (simp add: getState_def)
  {
    assume "highlightedIndex (state s) = Some (n - 1)"
    then show "highlightedIndex (state (snd (ArrowDown props event s))) = Some 0"
      using h n down eff
      by (simp add: ArrowDown_def moveHighlightedIndex_def Let_def setHighlightedIndex_state)
  }
  {
    assume "highlightedIndex (state s) = Some 0"
    then show "highlightedIndex (state (snd (ArrowUp props event s))) = Some (n - 1)"
      using h n up eff
      by (simp add: ArrowUp_def moveHighlightedIndex_def Let_def setHighlightedIndex_state)
  }
qed

theorem navigation_wraps_witness:
  "highlightedIndex (state (snd (ArrowDown exampleProps (keyDown 40) (openAt 2)))) = Some 0
   \<and> highlightedIndex (state (snd (ArrowUp exampleProps (keyDown 38) (openAt 0)))) = Some 2"
  using navigation_wraps [of 3 "\<lambda>i. False" exampleProps "openAt 2" "keyDown 40"]
        navigation_wraps [of 3 "\<lambda>i. False" exampleProps "openAt 0" "keyDown 38"]
  by (simp add: example_more example_simps exampleState_def getState_def)

text \<open>
  C4, as amended. The index arithmetic is total (nothing in it can throw).
  \<^verbatim>\<open>moveHighlightedIndex\<close> with an item count above 0 sets \<open>- 1\<close> or an index below
  the count; with a count of 0 or less it makes no transition at all, so the
  highlighted index keeps the value it had and is not forced to the sentinel.
  \<^verbatim>\<open>getHighlightedIndexOnOpen\<close> returns \<open>- 1\<close> on an empty item list; on a non-empty
  one it returns the caller's \<^verbatim>\<open>initialHighlightedIndex\<close> or
  \<^verbatim>\<open>defaultHighlightedIndex\<close> as given, or else \<open>- 1\<close> or an index within the list.
\<close>

theorem highlight_arithmetic:
  "(getItemCount props s \<le> 0 \<longrightarrow> moveHighlightedIndex props amount otherStateToSet s = s)
   \<and> (0 < getItemCount props s \<longrightarrow>
        (\<exists>h. - 1 \<le> h \<and> h < getItemCount props s
           \<and> moveHighlightedIndex props amount otherStateToSet s
               = setHighlightedIndex props (Some (Some h)) otherStateToSet s))
   \<and> (0 < getItemCount props s \<and> prop_highlightedIndex props = None
        \<and> (\<forall>st p. stateReducer props st p = p) \<and> p_highlightedIndex otherStateToSet = None \<longrightarrow>
        (\<exists>h. - 1 \<le> h \<and> h < getItemCount props s
           \<and> highlightedIndex (state (moveHighlightedIndex props amount otherStateToSet s))
               = Some h))
   \<and> (hook_items hp = [] \<longrightarrow> getHighlightedIndexOnOpen hp st offset = - 1)
   \<and> (hook_items hp \<noteq> [] \<longrightarrow>
        Some (getHighlightedIndexOnOpen hp st offset) = initialHighlightedIndex hp
        \<or> Some (getHighlightedIndexOnOpen hp st offset) = hook_defaultHighlightedIndex hp
        \<or> (- 1 \<le> getHighlightedIndexOnOpen hp st offset
            \<and> getHighlightedIndexOnOpen hp st offset < int (length (hook_items hp))))"
proof (intro conjI impI)
  assume "getItemCount props s \<le> 0"
  then show "moveHighlightedIndex props amount otherStateToSet s = s"
    by (simp add: moveHighlightedIndex_def Let_def)
next
  assume n: "0 < getItemCount props s"
  show "\<exists>h. - 1 \<le> h \<and> h < getItemCount props s
           \<and> moveHighlightedIndex props amount otherStateToSet s
               = setHighlightedIndex props (Some (Some h)) otherStateToSet s"
    using n getHighlightedIndex_range [OF n]
    by (auto simp add: moveHighlightedIndex_def Let_def)
next
  assume h: "0 < getItemCount props s \<and> prop_highlightedIndex props = None
        \<and> (\<forall>st p. stateReducer props st p = p) \<and> p_highlightedIndex otherStateToSet = None"
  then have n: "0 < getItemCount props s"
    by simp
  show "\<exists>h. - 1 \<le> h \<and> h < getItemCount props s
           \<and> highlightedIndex (state (moveHighlightedIndex props amount otherStateToSet s))
               = Some h"
    using h getHighlightedIndex_range [OF n] by (simp add: moveHighlightedIndex_state)
next
  assume "hook_items hp = []"
  then show "getHighlightedIndexOnOpen hp st offset = - 1"
    by (simp add: getHighlightedIndexOnOpen_def)
next
  assume ne: "hook_items hp \<noteq> []"
  show "Some (getHighlightedIndexOnOpen hp st offset) = initialHighlightedIndex hp
        \<or> Some (getHighlightedIndexOnOpen hp st offset) = hook_defaultHighlightedIndex hp
        \<or> (- 1 \<le> getHighlightedIndexOnOpen hp st offset
            \<and> getHighlightedIndexOnOpen hp st offset < int (length (hook_items hp)))"
    using ne indexOf_range [of "hook_items hp" "the (selectedItem st)"]
    by (auto simp add: getHighlightedIndexOnOpen_def)
qed

theorem highlight_arithmetic_witness:
  "moveHighlightedIndex exampleProps 1 (typed keyDownArrowDown) emptied = emptied
   \<and> highlightedIndex (state (moveHighlightedIndex exampleProps 1 (typed keyDownArrowDown) (openAt 2)))
       = Some 0
   \<and> getHighlightedIndexOnOpen (exampleHookProps\<lparr>hook_items := []\<rparr>) exampleState 1 = - 1
   \<and> getHighlightedIndexOnOpen exampleHookProps exampleState 1 = 7"
  using highlight_arithmetic [of exampleProps emptied 1 "typed keyDownArrowDown"
          "exampleHookProps\<lparr>hook_items := []\<rparr>" exampleState 1]
        highlight_arithmetic [of exampleProps "openAt 2" 1 "typed keyDownArrowDown"
          exampleHookProps exampleState 1]
  by (simp add: getItemCount_def emptied_simps example_simps exampleHookProps_def
      getHighlightedIndexOnOpen_def typed_def emptyPatch_def moveHighlightedIndex_state
      getHighlightedIndex_enabled example_more getState_def exampleState_def)

text \<open>The claim as stated fails twice: \<^verbatim>\<open>ArrowDown\<close> on the open session whose list
  has shrunk to nothing leaves the highlight at 2, and \<^verbatim>\<open>getHighlightedIndexOnOpen\<close>
  returns the configured default 7 for three items.\<close>

theorem highlight_arithmetic_counterexample:
  "getItemCount exampleProps emptied = 0
   \<and> highlightedIndex (getState (state (snd (ArrowDown exampleProps (keyDown 40) emptied)))
        exampleProps) = Some 2
   \<and> length (hook_items exampleHookProps) = 3
   \<and> getHighlightedIndexOnOpen exampleHookProps exampleState 1 = 7"
  by (simp add: getItemCount_def emptied_simps example_simps exampleHookProps_def
      getHighlightedIndexOnOpen_def ArrowDown_def moveHighlightedIndex_def getState_def
      exampleState_def)

section \<open>Reset and Escape\<close>

text \<open>
  Under props that control no field and the default override, \<^verbatim>\<open>reset\<close> restores
  \<^verbatim>\<open>isOpen\<close> and \<^verbatim>\<open>highlightedIndex\<close> to their defaults and recomputes \<^verbatim>\<open>inputValue\<close>
  from the selected item; \<^verbatim>\<open>Escape\<close> does so when the internal \<^verbatim>\<open>isOpen\<close> is set, and
  clears the selection and the input value when it is not. Blur and outside
  interaction reset with no more than the action kind.
\<close>

lemma reset_state:
  assumes "prop_highlightedIndex props = None" and "prop_inputValue props = None"
    and "prop_isOpen props = None" and "prop_selectedItem props = None"
    and "\<forall>st p. stateReducer props st p = p"
  shows "state (reset props (typed t) None s) =
     \<lparr>highlightedIndex = defaultHighlightedIndex props,
      inputValue = itemToString props (selectedItem (state s)),
      isOpen = defaultIsOpen props,
      selectedItem = selectedItem (state s)\<rparr>"
  using assms
  by (simp add: reset_def internalSetState_None overridden_def proposal_def spec_commit_def
      spread_def pickState_def typed_def emptyPatch_def getState_def)

lemma Escape_state:
  assumes "prop_highlightedIndex props = None" and "prop_inputValue props = None"
    and "prop_isOpen props = None" and "prop_selectedItem props = None"
    and "\<forall>st p. stateReducer props st p = p"
  shows "state (snd (Escape props event s)) =
     (if isOpen (state s)
      then \<lparr>highlightedIndex = defaultHighlightedIndex props,
            inputValue = itemToString props (selectedItem (state s)),
            isOpen = defaultIsOpen props,
            selectedItem = selectedItem (state s)\<rparr>
      else \<lparr>highlightedIndex = defaultHighlightedIndex props,
            inputValue = [],
            isOpen = defaultIsOpen props,
            selectedItem = None\<rparr>)"
  using assms
  by (simp add: Escape_def reset_def internalSetState_None overridden_def proposal_def
      spec_commit_def spread_def pickState_def typed_def emptyPatch_def getState_def)

lemma reset_family:
  "inputHandleBlur props False (s\<lparr>isMouseDown := False\<rparr>)
     = (if environment props = None then s\<lparr>isMouseDown := False\<rparr>
        else reset props (typed blurInput) None (s\<lparr>isMouseDown := False\<rparr>))"
  "buttonHandleBlur props False False (s\<lparr>isMouseDown := False\<rparr>)
     = (if environment props = None then s\<lparr>isMouseDown := False\<rparr>
        else reset props (typed blurButton) None (s\<lparr>isMouseDown := False\<rparr>))"
  "isOpen (getState (state s) props) \<Longrightarrow>
   state (onMouseUp props False s)
     = state (reset props (typed mouseUp) None (s\<lparr>isMouseDown := False\<rparr>))"
  "isOpen (getState (state s) props) \<Longrightarrow> \<not> isTouchMove s \<Longrightarrow>
   state (onTouchEnd props False s) = state (reset props (typed touchEnd) None s)"
  by (simp_all add: inputHandleBlur_def buttonHandleBlur_def onMouseUp_def onTouchEnd_def
      Let_def reset_def internalSetState_eq cbToCb_def callCallback_def notify_def)

text \<open>
  C7, where the code departs from the claim. \<^verbatim>\<open>Escape\<close> decides whether to clear the
  selection from \<^verbatim>\<open>this.state.isOpen\<close>, the internal copy, where every other handler
  reads \<^verbatim>\<open>this.getState().isOpen\<close>. With \<^verbatim>\<open>isOpen\<close> controlled and \<open>True\<close> while the
  internal copy is \<open>False\<close>, an escape on the open component clears the selected
  item \<open>"b"\<close> and the input value.
\<close>

theorem Escape_reads_internal_isOpen:
  "isOpen (getState (state selectedB) controlledOpen)
   \<and> selectedItem (getState (state selectedB) controlledOpen) = Some (JStr ''b'')
   \<and> selectedItem (getState (state (snd (Escape controlledOpen (keyDown 27) selectedB)))
        controlledOpen) = None
   \<and> inputValue (getState (state (snd (Escape controlledOpen (keyDown 27) selectedB)))
        controlledOpen) = []"
  by (simp add: Escape_def reset_def internalSetState_None overridden_def proposal_def
      spec_commit_def spread_def pickState_def typed_def emptyPatch_def getState_def
      controlledOpen_def selectedB_def exampleSession_def exampleState_def exampleProps_def
      defaultProps_def)

section \<open>A patch that changes nothing\<close>











section \<open>The completion callback\<close>










section \<open>Controlled fields\<close>

lemma getState_controlled: "controlledAgree p (getState st p)"
  by (simp add: controlledAgree_def getState_def)

lemma getState_uncontrolled: "uncontrolledFrom p st (getState st p)"
  by (simp add: uncontrolledFrom_def getState_def)

lemma commit_written: "uncontrolledWritten props out (spec_commit props st out)"
  by (simp add: uncontrolledWritten_def spec_commit_def)

lemma written_effective:
  "uncontrolledWritten p out st \<Longrightarrow> uncontrolledWritten p out (getState st p)"
  by (simp add: uncontrolledWritten_def getState_def)

text \<open>
  C2. After a transition of the component, whatever its patch and callback, every
  controlled field of the effective state has the value of its prop; and without a
  callback every field that is not controlled and that the override-adjusted patch
  names has the patch's value, in the internal state and in the effective one,
  whether or not the same patch names controlled fields. The same for the hooks:
  the state \<^verbatim>\<open>useControlledReducer\<close> returns after a dispatch has the props' values in
  its controlled fields and the override's new state in the others.
\<close>

theorem controlled_fields:
  "controlledAgree props (getState (state (internalSetState props sts cb s)) props)
   \<and> uncontrolledWritten props (overridden props sts s)
        (state (internalSetState props sts None s))
   \<and> uncontrolledWritten props (overridden props sts s)
        (getState (state (internalSetState props sts None s)) props)
   \<and> controlledAgree hp (useControlledReducer hp (useEnhancedReducer reducer hp st a))
   \<and> uncontrolledFrom hp (hook_stateReducer hp (getState st hp) a (reducer (getState st hp) a))
        (useControlledReducer hp (useEnhancedReducer reducer hp st a))"
proof -
  have w: "uncontrolledWritten props (overridden props sts s)
        (state (internalSetState props sts None s))"
    by (simp add: internalSetState_None commit_written)
  show ?thesis
    using w written_effective [OF w]
    by (simp add: getState_controlled getState_uncontrolled useControlledReducer_def
        useEnhancedReducer_def Let_def)
qed

theorem controlled_fields_witness:
  "prop_isOpen controlledOpen = Some True
   \<and> prop_inputValue controlledOpen = None
   \<and> p_isOpen (overridden controlledOpen parked selectedB) = Some False
   \<and> p_inputValue (overridden controlledOpen parked selectedB) = Some ''x''
   \<and> isOpen (getState (state (internalSetState controlledOpen parked None selectedB))
        controlledOpen) = True
   \<and> inputValue (getState (state (internalSetState controlledOpen parked None selectedB))
        controlledOpen) = ''x''"
  using controlled_fields [of controlledOpen parked None selectedB exampleHookProps
      "\<lambda>st a. st" exampleState "()"]
  by (auto simp add: controlledAgree_def uncontrolledWritten_def controlledOpen_def parked_def
      overridden_def proposal_def example_simps emptyPatch_def)

section \<open>The override\<close>







end
